theory Spec2Isabelle
  imports Main
begin

section \<open>Python values used by \<^verbatim>\<open>preprocess.py\<close>\<close>

text \<open>
  A Python \<^verbatim>\<open>str\<close> is modelled as a \<^typ>\<open>string\<close>, one \<^typ>\<open>char\<close> per character.
  Only two facts about characters matter to the source: which character is the space that
  \<^verbatim>\<open>split(' ')\<close> and \<^verbatim>\<open>' '.join\<close> use, and what \<^verbatim>\<open>lower()\<close> does to a letter; the model
  lower-cases the letters A to Z and leaves every other character alone.
\<close>

subsection \<open>\<^verbatim>\<open>str.split(sep)\<close> with a one-character separator, and \<^verbatim>\<open>sep.join\<close>\<close>

text \<open>
  \<^verbatim>\<open>s.split(' ')\<close> cuts at every single space and keeps empty pieces, so the empty string
  gives one empty piece. The \<open>[]\<close> branch of the \<open>case\<close> is never taken: the result of a
  split has at least one piece.
\<close>

fun split_on :: "char \<Rightarrow> string \<Rightarrow> string list" where
  "split_on sep [] = [[]]"
| "split_on sep (c # cs) =
     (if c = sep then [] # split_on sep cs
      else (case split_on sep cs of
              [] \<Rightarrow> [[c]]
            | w # ws \<Rightarrow> (c # w) # ws))"

definition split_space :: "string \<Rightarrow> string list" where
  "split_space s = split_on (CHR '' '') s"

fun join_space :: "string list \<Rightarrow> string" where
  "join_space [] = []"
| "join_space [w] = w"
| "join_space (w # v # ws) = w @ '' '' @ join_space (v # ws)"

subsection \<open>\<^verbatim>\<open>str.lower()\<close>\<close>

definition lower_char :: "char \<Rightarrow> char" where
  "lower_char c =
     (if 65 \<le> (of_char c :: nat) \<and> (of_char c :: nat) \<le> 90
      then char_of ((of_char c :: nat) + 32) else c)"

definition lower :: "string \<Rightarrow> string" where
  "lower s = map lower_char s"

text \<open>The upper-case letters A to Z and the lower-case letters a to z, by their codes.\<close>

definition is_upper_char :: "char \<Rightarrow> bool" where
  "is_upper_char c = (65 \<le> (of_char c :: nat) \<and> (of_char c :: nat) \<le> 90)"

definition is_lower_char :: "char \<Rightarrow> bool" where
  "is_lower_char c = (97 \<le> (of_char c :: nat) \<and> (of_char c :: nat) \<le> 122)"

subsection \<open>Slices\<close>

text \<open>
  \<^verbatim>\<open>xs[:k]\<close>: the first \<open>k\<close> elements, and for a negative \<open>k\<close> all but the last \<open>-k\<close>.
  \<^verbatim>\<open>df.iloc[a:b]\<close> with \<open>0 \<le> a\<close> and \<open>0 \<le> b\<close>: the rows at positions \<open>a\<close> up to \<open>b\<close>,
  clipped to the rows there are.
\<close>

definition slice_to :: "int \<Rightarrow> 'a list \<Rightarrow> 'a list" where
  "slice_to k xs =
     (if 0 \<le> k then take (nat k) xs else take (nat (int (length xs) + k)) xs)"

definition iloc :: "'a list \<Rightarrow> nat \<Rightarrow> nat \<Rightarrow> 'a list" where
  "iloc df a b = drop a (take b df)"

subsection \<open>Dictionaries\<close>

text \<open>
  A \<^verbatim>\<open>dict\<close> keeps its keys in the order they were first inserted, and \<^verbatim>\<open>build_vocab\<close>
  numbers the words by that order, so a dictionary is an association list with one entry
  per key. \<open>dict_set\<close> is \<^verbatim>\<open>d[k] = v\<close>: an existing key keeps its place and takes the new
  value, a new key goes to the end.
\<close>

fun dict_set :: "'k \<Rightarrow> 'v \<Rightarrow> ('k \<times> 'v) list \<Rightarrow> ('k \<times> 'v) list" where
  "dict_set k v [] = [(k, v)]"
| "dict_set k v ((k', v') # d) =
     (if k' = k then (k, v) # d else (k', v') # dict_set k v d)"

definition dict_get :: "('k \<times> 'v) list \<Rightarrow> 'k \<Rightarrow> 'v option" where
  "dict_get d k = map_of d k"

section \<open>The padder: \<^verbatim>\<open>pad\<close> inside \<^verbatim>\<open>add_padding\<close>\<close>

text \<open>
  \<open>pad_list\<close> is \<^verbatim>\<open>comment_list\<close> when the \<^verbatim>\<open>if\<close> of lines 81 to 84 is done, \<open>pad\<close> joins it
  (line 86). \<^verbatim>\<open>add_padding\<close> calls \<^verbatim>\<open>pad(comment, max_length)\<close>, so \<^verbatim>\<open>padword\<close> is always
  its default there.
\<close>

definition pad_list :: "string \<Rightarrow> int \<Rightarrow> string \<Rightarrow> string list" where
  "pad_list comment pad_to padword =
     (let comment_list = split_space comment;
          short = pad_to - int (length comment_list)
      in if short > 0 then comment_list @ replicate (nat short) padword
         else slice_to pad_to comment_list)"

definition pad :: "string \<Rightarrow> int \<Rightarrow> string \<Rightarrow> string" where
  "pad comment pad_to padword = join_space (pad_list comment pad_to padword)"

definition default_padword :: string where
  "default_padword = ''<pad>''"

section \<open>The tokenizer: \<^verbatim>\<open>tokenize_comments\<close>\<close>

text \<open>
  \<^verbatim>\<open>string.punctuation\<close> is the 32 ASCII punctuation characters; \<^verbatim>\<open>list\<close> makes one
  one-character string of each, and line 30 adds the two quote tokens of the tokenizer,
  two backquotes and two apostrophes.
\<close>

definition string_punctuation :: string where
  "string_punctuation =
     ''!'' @ [CHR 0x22] @ ''#$%&'' @ [CHR 0x27] @ ''()*+,-./:;<=>?@['' @ [CHR 0x5C] @
     '']^_'' @ [CHR 0x60] @ ''{|}~''"

definition punctuations :: "string list" where
  "punctuations =
     map (\<lambda>c. [c]) string_punctuation @ [[CHR 0x60, CHR 0x60], [CHR 0x27, CHR 0x27]]"

text \<open>
  Line 39, the list comprehension over the tokens of one comment. \<^verbatim>\<open>nltk.word_tokenize\<close>
  is a library function, not code of this repository: \<open>tokenize_text\<close> takes it as the
  parameter \<open>word_tokenize\<close>.
\<close>

definition clean_words :: "bool \<Rightarrow> string list \<Rightarrow> string list" where
  "clean_words lower_case word_list =
     [if \<not> lower_case then word else lower word. word \<leftarrow> word_list, word \<notin> set punctuations]"

definition tokenize_text :: "(string \<Rightarrow> string list) \<Rightarrow> bool \<Rightarrow> string \<Rightarrow> string" where
  "tokenize_text word_tokenize lower_case text =
     join_space (clean_words lower_case (word_tokenize text))"

section \<open>Rows, files and errors\<close>

text \<open>
  A row of the csv file has the \<^verbatim>\<open>comment_text\<close> column the code reads and writes, and its
  other columns, which the code never touches. An \<open>entry\<close> is the row as the file has it:
  the text of its \<^verbatim>\<open>comment_text\<close> cell and the other columns.
\<close>

record 'a entry =
  comment_text :: string
  other_columns :: 'a

datatype error = ValueError | TypeError | FileNotFoundError | AttributeError

text \<open>
  \<^verbatim>\<open>pd.read_csv\<close> does not deliver every cell as a string: a cell whose text is one of its
  default missing-value markers, the empty text among them, is delivered as the float
  \<^verbatim>\<open>NaN\<close>. \<open>cell\<close> is the value \<^verbatim>\<open>entry['comment_text']\<close> of a row of a data frame; the model
  covers the cells that arrive as a string or as \<^verbatim>\<open>NaN\<close>.
\<close>

datatype cell = Str string | NaN

definition na_values :: "string list" where
  "na_values =
     [[], ''#N/A'', ''#N/A N/A'', ''#NA'', ''-1.#IND'', ''-1.#QNAN'', ''-NaN'', ''-nan'',
      ''1.#IND'', ''1.#QNAN'', ''<NA>'', ''N/A'', ''NA'', ''NULL'', ''NaN'', ''None'',
      ''n/a'', ''nan'', ''null'']"

definition is_na :: "string \<Rightarrow> bool" where
  "is_na s = (s \<in> set na_values)"

definition read_cell :: "string \<Rightarrow> cell" where
  "read_cell s = (if is_na s then NaN else Str s)"

text \<open>
  A row of a data frame is the value of its \<^verbatim>\<open>comment_text\<close> with the other columns.
  \<^verbatim>\<open>pd.read_csv\<close> numbers the rows of a file 0, 1, 2, ... across its chunks, so
  \<^verbatim>\<open>df.at[row, 'comment_text'] = v\<close> inside \<^verbatim>\<open>for row, entry in df.iterrows()\<close> changes the row
  the loop is at and no other: a data frame is the list of its rows. \<^verbatim>\<open>to_csv\<close> writes a
  string as it is and \<^verbatim>\<open>NaN\<close> as the empty text.
\<close>

type_synonym 'a frame_row = "cell \<times> 'a"

definition parse_row :: "'a entry \<Rightarrow> 'a frame_row" where
  "parse_row r = (read_cell (comment_text r), other_columns r)"

definition cell_text :: "cell \<Rightarrow> string" where
  "cell_text v = (case v of Str s \<Rightarrow> s | NaN \<Rightarrow> [])"

definition write_row :: "'a frame_row \<Rightarrow> 'a entry" where
  "write_row r = \<lparr>comment_text = cell_text (fst r), other_columns = snd r\<rparr>"

text \<open>
  \<^verbatim>\<open>value.split(' ')\<close> on a cell: a string is split, and \<^verbatim>\<open>NaN\<close>, a float, has no attribute
  \<^verbatim>\<open>split\<close>.
\<close>

definition py_split :: "cell \<Rightarrow> error + string list" where
  "py_split v = (case v of Str s \<Rightarrow> Inr (split_space s) | NaN \<Rightarrow> Inl AttributeError)"

text \<open>
  The file system: the directories there are, and the rows of each csv file (the header line
  is not modelled). Paths are compared as they are written.
\<close>

record 'a world =
  dirs :: "string set"
  files :: "string \<Rightarrow> 'a entry list option"

text \<open>An argument that may be \<^verbatim>\<open>None\<close>, and what \<^verbatim>\<open>not\<close> makes of it.\<close>

definition truthy :: "string option \<Rightarrow> bool" where
  "truthy a = (case a of None \<Rightarrow> False | Some s \<Rightarrow> s \<noteq> [])"

text \<open>
  \<^verbatim>\<open>os.path.join\<close> of two components, as \<^verbatim>\<open>posixpath\<close> has it; a component that is
  \<^verbatim>\<open>None\<close> raises \<^verbatim>\<open>TypeError\<close>.
\<close>

definition path_join :: "string \<Rightarrow> string \<Rightarrow> string" where
  "path_join a b =
     (if take 1 b = ''/'' then b
      else if a = [] \<or> last a = CHR ''/'' then a @ b
      else a @ ''/'' @ b)"

definition os_path_join :: "string option \<Rightarrow> string option \<Rightarrow> error + string" where
  "os_path_join a b =
     (case a of
        None \<Rightarrow> Inl TypeError
      | Some a' \<Rightarrow> (case b of None \<Rightarrow> Inl TypeError | Some b' \<Rightarrow> Inr (path_join a' b')))"

text \<open>\<^verbatim>\<open>os.path.exists\<close> of a path that is a string: a file or a directory is there.\<close>

definition os_path_exists :: "'a world \<Rightarrow> string \<Rightarrow> bool" where
  "os_path_exists w p = (case files w p of None \<Rightarrow> p \<in> dirs w | Some rows \<Rightarrow> True)"

definition os_makedirs :: "'a world \<Rightarrow> string \<Rightarrow> error + 'a world" where
  "os_makedirs w p =
     (if p = [] then Inl FileNotFoundError else Inr (w\<lparr>dirs := insert p (dirs w)\<rparr>))"

text \<open>
  \<^verbatim>\<open>pd.read_csv(path, chunksize=n)\<close>: the rows of the file as rows of a data frame, \<open>n\<close> at a
  time, the last chunk with what is left. A chunk size below 1 is refused with
  \<^verbatim>\<open>ValueError\<close>, a missing file with \<^verbatim>\<open>FileNotFoundError\<close>. The reader holds the rows the
  file had when it was opened, and a file without rows is taken to give no chunk.
\<close>

function chunks_of :: "nat \<Rightarrow> 'b list \<Rightarrow> 'b list list" where
  "chunks_of n xs = (if n = 0 \<or> xs = [] then [] else take n xs # chunks_of n (drop n xs))"
  by pat_completeness auto
termination
  by (relation "measure (\<lambda>(n, xs). length xs)") auto

declare chunks_of.simps [simp del]

definition read_csv :: "'a world \<Rightarrow> string \<Rightarrow> nat \<Rightarrow> error + 'a frame_row list list" where
  "read_csv w path chunksize =
     (if chunksize < 1 then Inl ValueError
      else (case files w path of
              None \<Rightarrow> Inl FileNotFoundError
            | Some rows \<Rightarrow> Inr (chunks_of chunksize (map parse_row rows))))"

text \<open>\<^verbatim>\<open>chunk.to_csv(path, mode=...)\<close>: mode \<^verbatim>\<open>'w'\<close> replaces the file, mode \<^verbatim>\<open>'a'\<close> adds to it.\<close>

datatype mode = Write | Append

definition to_csv :: "'a world \<Rightarrow> string \<Rightarrow> mode \<Rightarrow> 'a frame_row list \<Rightarrow> 'a world" where
  "to_csv w path m df =
     w\<lparr>files := (files w)(path \<mapsto>
        (case m of
           Write \<Rightarrow> map write_row df
         | Append \<Rightarrow>
             (case files w path of
                None \<Rightarrow> map write_row df
              | Some old \<Rightarrow> old @ map write_row df)))\<rparr>"

section \<open>The word frequency counter: \<^verbatim>\<open>count_occurrences\<close>\<close>

text \<open>
  Line 121 compares \<^verbatim>\<open>word_count\<close>, the table, with \<^verbatim>\<open>padword\<close>, a string. Python's \<^verbatim>\<open>!=\<close>
  between a dictionary and a string compares values of two different types; \<open>py_value\<close>
  keeps the two apart and \<open>py_ne\<close> is that comparison.
\<close>

datatype py_value = PyStr string | PyDict "(string \<times> int) list"

definition py_ne :: "py_value \<Rightarrow> py_value \<Rightarrow> bool" where
  "py_ne a b = (a \<noteq> b)"

text \<open>
  \<^verbatim>\<open>word_count[word] += 1\<close> on a \<^verbatim>\<open>defaultdict(lambda: 0)\<close>: reading a missing key first
  stores the default 0 under it, then the sum is stored.
\<close>

definition defaultdict_get :: "(string \<times> int) list \<Rightarrow> string \<Rightarrow> int \<times> (string \<times> int) list" where
  "defaultdict_get d k =
     (case dict_get d k of None \<Rightarrow> (0, dict_set k 0 d) | Some v \<Rightarrow> (v, d))"

definition increment :: "string \<Rightarrow> (string \<times> int) list \<Rightarrow> (string \<times> int) list" where
  "increment word word_count =
     (case defaultdict_get word_count word of (v, d) \<Rightarrow> dict_set word (v + 1) d)"

text \<open>
  Lines 120 to 122, lines 118 to 122 and lines 117 to 122: the three nested loops. The
  \<^verbatim>\<open>split\<close> of line 119 raises on a cell that is not a string, and the exception ends the
  call; \<open>comment_words\<close> is the list the source keeps in its local \<^verbatim>\<open>comment_text\<close>.
\<close>

fun count_words :: "string \<Rightarrow> string list \<Rightarrow> (string \<times> int) list \<Rightarrow> (string \<times> int) list" where
  "count_words padword [] word_count = word_count"
| "count_words padword (word # ws) word_count =
     count_words padword ws
       (if py_ne (PyDict word_count) (PyStr padword) then increment word word_count
        else word_count)"

fun count_rows ::
  "string \<Rightarrow> 'a frame_row list \<Rightarrow> (string \<times> int) list \<Rightarrow> error + (string \<times> int) list" where
  "count_rows padword [] word_count = Inr word_count"
| "count_rows padword (entry # es) word_count =
     (case py_split (fst entry) of
        Inl e \<Rightarrow> Inl e
      | Inr comment_words \<Rightarrow>
          count_rows padword es (count_words padword comment_words word_count))"

fun count_chunks ::
  "string \<Rightarrow> 'a frame_row list list \<Rightarrow> (string \<times> int) list \<Rightarrow>
   error + (string \<times> int) list" where
  "count_chunks padword [] word_count = Inr word_count"
| "count_chunks padword (chunk # cs) word_count =
     (case count_rows padword chunk word_count of
        Inl e \<Rightarrow> Inl e
      | Inr word_count' \<Rightarrow> count_chunks padword cs word_count')"

definition count_occurrences ::
  "'a world \<Rightarrow> string \<Rightarrow> nat \<Rightarrow> string \<Rightarrow> error + (string \<times> int) list" where
  "count_occurrences w file_name chunk_size padword =
     (case read_csv w file_name chunk_size of
        Inl e \<Rightarrow> Inl e
      | Inr df_chunks \<Rightarrow> count_chunks padword df_chunks [])"

section \<open>The vocabulary builder: \<^verbatim>\<open>build_vocab\<close> and \<^verbatim>\<open>_find_replace\<close>\<close>

text \<open>Line 153, the dictionary display \<^verbatim>\<open>{unknown: -2, padword: -1}\<close>.\<close>

definition initial_vocab :: "string \<Rightarrow> string \<Rightarrow> (string \<times> int) list" where
  "initial_vocab unknown padword = dict_set padword (- 1) (dict_set unknown (- 2) [])"

text \<open>
  Lines 156 to 160. \<open>index\<close> is the counter of \<^verbatim>\<open>enumerate\<close>: it goes up by one at every
  entry of \<^verbatim>\<open>word_count\<close>, whichever branch the entry takes.
\<close>

fun vocab_loop ::
  "int \<Rightarrow> int \<Rightarrow> nat \<Rightarrow> (string \<times> int) list \<Rightarrow>
   (string \<times> int) list \<times> string list \<Rightarrow> (string \<times> int) list \<times> string list" where
  "vocab_loop threshold uncommon_limit index [] (vocab, uncommon) = (vocab, uncommon)"
| "vocab_loop threshold uncommon_limit index ((word, occurrences) # items) (vocab, uncommon) =
     vocab_loop threshold uncommon_limit (Suc index) items
       (if occurrences > threshold then (dict_set word (int index) vocab, uncommon)
        else if int (length uncommon) < uncommon_limit then (vocab, uncommon @ [word])
        else (vocab, uncommon))"

text \<open>Line 163, the dictionary comprehension; \<open>ident\<close> is the loop variable \<^verbatim>\<open>id_\<close>.\<close>

fun reverse_loop :: "(string \<times> int) list \<Rightarrow> (int \<times> string) list \<Rightarrow> (int \<times> string) list" where
  "reverse_loop [] reverse_vocab = reverse_vocab"
| "reverse_loop ((word, ident) # items) reverse_vocab =
     reverse_loop items (dict_set ident word reverse_vocab)"

text \<open>
  \<^verbatim>\<open>_find_replace\<close>, lines 198 to 205: the list comprehension of line 203, one row, then the
  data frame. The \<^verbatim>\<open>split\<close> of line 202 raises on a cell that is not a string.
  \<open>replaced_row\<close> is what the lines leave of a row of the file whose cell is read as a string.
\<close>

definition substitute :: "string list \<Rightarrow> string \<Rightarrow> string list \<Rightarrow> string list" where
  "substitute uncommon unknown comment_words =
     [if word \<notin> set uncommon then word else unknown. word \<leftarrow> comment_words]"

definition find_replace_row :: "string list \<Rightarrow> string \<Rightarrow> 'a frame_row \<Rightarrow> error + 'a frame_row" where
  "find_replace_row uncommon unknown entry =
     (case py_split (fst entry) of
        Inl e \<Rightarrow> Inl e
      | Inr comment_words \<Rightarrow>
          Inr (Str (join_space (substitute uncommon unknown comment_words)), snd entry))"

definition replaced_row :: "string list \<Rightarrow> string \<Rightarrow> 'a entry \<Rightarrow> 'a entry" where
  "replaced_row uncommon unknown r =
     r\<lparr>comment_text :=
       join_space (substitute uncommon unknown (split_space (comment_text r)))\<rparr>"

fun find_replace :: "'a frame_row list \<Rightarrow> string list \<Rightarrow> string \<Rightarrow> error + 'a frame_row list" where
  "find_replace [] uncommon unknown = Inr []"
| "find_replace (entry # df) uncommon unknown =
     (case find_replace_row uncommon unknown entry of
        Inl e \<Rightarrow> Inl e
      | Inr entry' \<Rightarrow>
          (case find_replace df uncommon unknown of
             Inl e \<Rightarrow> Inl e
           | Inr df' \<Rightarrow> Inr (entry' # df')))"

text \<open>
  Lines 180 to 183, one chunk through the pool. \<^verbatim>\<open>starmap\<close> returns the results in the
  order of the splits it was given, or raises the exception of a worker that failed, and
  \<^verbatim>\<open>pd.concat\<close> puts the results one after the other.
\<close>

fun starmap :: "(error + 'b) list \<Rightarrow> error + 'b list" where
  "starmap [] = Inr []"
| "starmap (r # rs) =
     (case r of
        Inl e \<Rightarrow> Inl e
      | Inr x \<Rightarrow> (case starmap rs of Inl e \<Rightarrow> Inl e | Inr xs \<Rightarrow> Inr (x # xs)))"

definition rewrite_chunk ::
  "nat \<Rightarrow> nat \<Rightarrow> string list \<Rightarrow> string \<Rightarrow> 'a frame_row list \<Rightarrow> error + 'a frame_row list" where
  "rewrite_chunk processes chunk_size uncommon unknown chunk =
     (let step = chunk_size div processes;
          chunk_splits = map (\<lambda>i. iloc chunk (i * step) (step * (i + 1))) [0..<processes]
      in (case starmap (map (\<lambda>df. find_replace df uncommon unknown) chunk_splits) of
            Inl e \<Rightarrow> Inl e
          | Inr results \<Rightarrow> Inr (concat results)))"

text \<open>
  Lines 176 to 191, the loop over the chunks; \<open>index\<close> is the counter of \<^verbatim>\<open>enumerate\<close>.
  \<^verbatim>\<open>Pool(processes)\<close> refuses a number of processes below 1 with \<^verbatim>\<open>ValueError\<close>. An
  exception leaves the file with the chunks written before it.
\<close>

fun rewrite_chunks ::
  "nat \<Rightarrow> nat \<Rightarrow> string list \<Rightarrow> string \<Rightarrow> string \<Rightarrow> nat \<Rightarrow> 'a frame_row list list \<Rightarrow>
   'a world \<Rightarrow> error option \<times> 'a world" where
  "rewrite_chunks processes chunk_size uncommon unknown out index [] w = (None, w)"
| "rewrite_chunks processes chunk_size uncommon unknown out index (chunk # cs) w =
     (if processes < 1 then (Some ValueError, w)
      else (case rewrite_chunk processes chunk_size uncommon unknown chunk of
              Inl e \<Rightarrow> (Some e, w)
            | Inr chunk' \<Rightarrow>
                rewrite_chunks processes chunk_size uncommon unknown out (Suc index) cs
                  (to_csv w out (if index = 0 then Write else Append) chunk')))"

text \<open>
  Lines 169 to 193, what \<^verbatim>\<open>modify\<close> does once the check of line 166 is passed. The result is
  the error raised, if any, and the file system as the call leaves it. Line 169 leaves
  \<^verbatim>\<open>new_dir\<close> at \<^verbatim>\<open>None\<close> when neither it nor \<^verbatim>\<open>file_dir\<close> is given, and
  \<^verbatim>\<open>os.path.exists(None)\<close> raises \<^verbatim>\<open>TypeError\<close>.
\<close>

definition rewrite_corpus ::
  "nat \<Rightarrow> 'a world \<Rightarrow> string list \<Rightarrow> string \<Rightarrow> string option \<Rightarrow> string option \<Rightarrow>
   string option \<Rightarrow> nat \<Rightarrow> error option \<times> 'a world" where
  "rewrite_corpus processes w uncommon unknown file_dir file_name new_dir chunk_size =
     (case (if truthy new_dir then map_sum id Some (os_path_join file_dir new_dir)
            else Inr file_dir) of
        Inl e \<Rightarrow> (Some e, w)
      | Inr None \<Rightarrow> (Some TypeError, w)
      | Inr (Some new_dir') \<Rightarrow>
          (case (if \<not> os_path_exists w new_dir' then os_makedirs w new_dir' else Inr w) of
             Inl e \<Rightarrow> (Some e, w)
           | Inr w1 \<Rightarrow>
               (case os_path_join file_dir file_name of
                  Inl e \<Rightarrow> (Some e, w1)
                | Inr src \<Rightarrow>
                    (case read_csv w1 src chunk_size of
                       Inl e \<Rightarrow> (Some e, w1)
                     | Inr df_chunks \<Rightarrow>
                         (case os_path_join (Some new_dir') file_name of
                            Inl e \<Rightarrow> (Some e, w1)
                          | Inr out \<Rightarrow>
                              rewrite_chunks processes chunk_size uncommon unknown
                                out 0 df_chunks w1)))))"

text \<open>
  \<^verbatim>\<open>build_vocab\<close>. \<open>processes\<close> is what \<^verbatim>\<open>cpu_count()\<close> returns on the machine, \<open>w\<close> the file
  system at the call. The result is the error raised or the pair the function returns,
  and the file system afterwards.
\<close>

definition build_vocab ::
  "nat \<Rightarrow> 'a world \<Rightarrow> (string \<times> int) list \<Rightarrow> int \<Rightarrow> string \<Rightarrow> string \<Rightarrow> bool \<Rightarrow>
   string option \<Rightarrow> string option \<Rightarrow> string option \<Rightarrow> nat \<Rightarrow> int \<Rightarrow>
   (error + (string \<times> int) list \<times> (int \<times> string) list) \<times> 'a world" where
  "build_vocab processes w word_count threshold padword unknown modify
     file_dir file_name new_dir chunk_size uncommon_limit =
     (case vocab_loop threshold uncommon_limit 0 word_count (initial_vocab unknown padword, []) of
        (vocab, uncommon) \<Rightarrow>
          (let reverse_vocab = reverse_loop vocab []
           in if modify then
                (if \<not> truthy file_dir \<and> \<not> truthy file_name then (Inl ValueError, w)
                 else (case rewrite_corpus processes w uncommon unknown
                              file_dir file_name new_dir chunk_size of
                         (Some e, w') \<Rightarrow> (Inl e, w')
                       | (None, w') \<Rightarrow> (Inr (vocab, reverse_vocab), w')))
              else (Inr (vocab, reverse_vocab), w)))"

section \<open>Splitting and joining\<close>

lemma split_on_not_Nil: "split_on sep s \<noteq> []"
  by (induction s) (auto split: list.splits)

lemma split_on_no_sep: "w \<in> set (split_on sep s) \<Longrightarrow> sep \<notin> set w"
proof (induction s arbitrary: w)
  case Nil
  then show ?case by simp
next
  case (Cons c cs)
  show ?case
  proof (cases "c = sep")
    case True
    with Cons show ?thesis by auto
  next
    case False
    obtain v vs where vs: "split_on sep cs = v # vs"
      using split_on_not_Nil [of sep cs] by (cases "split_on sep cs") auto
    with Cons False show ?thesis by auto
  qed
qed

lemma split_on_plain: "sep \<notin> set w \<Longrightarrow> split_on sep w = [w]"
  by (induction w) auto

lemma split_on_append: "sep \<notin> set w \<Longrightarrow> split_on sep (w @ sep # rest) = w # split_on sep rest"
  by (induction w) auto

lemma split_join:
  "ts \<noteq> [] \<Longrightarrow> (\<And>t. t \<in> set ts \<Longrightarrow> CHR '' '' \<notin> set t) \<Longrightarrow> split_space (join_space ts) = ts"
proof (induction ts rule: join_space.induct)
  case 1
  then show ?case by simp
next
  case (2 w)
  then show ?case by (simp add: split_space_def split_on_plain)
next
  case (3 w v ws)
  have "split_on CHR '' '' (w @ CHR '' '' # join_space (v # ws)) = w # split_on CHR '' '' (join_space (v # ws))"
    using 3(3) by (intro split_on_append) simp
  moreover have "split_space (join_space (v # ws)) = v # ws"
    using 3 by simp
  ultimately show ?case by (simp add: split_space_def)
qed

lemma join_split: "join_space (split_space s) = s"
proof (induction s)
  case Nil
  then show ?case by (simp add: split_space_def)
next
  case (Cons c cs)
  obtain v vs where vs: "split_on CHR '' '' cs = v # vs"
    using split_on_not_Nil [of "CHR '' ''" cs] by (cases "split_on CHR '' '' cs") auto
  with Cons show ?case
    by (cases vs) (auto simp: split_space_def)
qed

lemma split_space_not_Nil: "split_space s \<noteq> []"
  by (simp add: split_space_def split_on_not_Nil)

lemma split_space_no_space: "w \<in> set (split_space s) \<Longrightarrow> CHR '' '' \<notin> set w"
  unfolding split_space_def by (rule split_on_no_sep)

lemma length_pad_list: "0 \<le> L \<Longrightarrow> length (pad_list comment L padword) = nat L"
  by (auto simp: pad_list_def slice_to_def Let_def)

lemma pad_list_short:
  "int (length (split_space comment)) < L \<Longrightarrow>
   pad_list comment L padword =
     split_space comment @ replicate (nat L - length (split_space comment)) padword"
  by (simp add: pad_list_def Let_def nat_diff_distrib')

lemma pad_list_long:
  "0 \<le> L \<Longrightarrow> L \<le> int (length (split_space comment)) \<Longrightarrow>
   pad_list comment L padword = take (nat L) (split_space comment)"
  by (simp add: pad_list_def Let_def slice_to_def)

lemma pad_list_no_space:
  assumes "CHR '' '' \<notin> set padword" "t \<in> set (pad_list comment L padword)"
  shows "CHR '' '' \<notin> set t"
proof -
  from assms(2) have "t \<in> set (split_space comment) \<or> t = padword"
    by (auto simp: pad_list_def Let_def slice_to_def split: if_splits dest: in_set_takeD)
  with assms(1) show ?thesis
    using split_space_no_space by blast
qed

section \<open>The padder\<close>

text \<open>
  Claim C7. For every comment, every target length \<open>L\<close> (a length: \<open>0 \<le> L\<close>) and every pad
  token without a space in it, \<open>pad\<close> returns the join by single spaces of exactly \<open>L\<close> tokens:
  the tokens of the comment followed by pad tokens up to \<open>L\<close> when the comment has fewer
  than \<open>L\<close> tokens, and its first \<open>L\<close> tokens otherwise. For \<open>1 \<le> L\<close>, splitting the returned
  string on single spaces gives these \<open>L\<close> tokens back; for \<open>L = 0\<close> the returned string is the
  join of no token, the empty string.
\<close>

theorem pad_exact_length:
  assumes "0 \<le> L" and "CHR '' '' \<notin> set padword"
  shows "\<exists>tokens. length tokens = nat L \<and> pad comment L padword = join_space tokens \<and>
           tokens = (if int (length (split_space comment)) < L
                     then split_space comment @
                            replicate (nat L - length (split_space comment)) padword
                     else take (nat L) (split_space comment)) \<and>
           (1 \<le> L \<longrightarrow> split_space (pad comment L padword) = tokens)"
proof -
  let ?tokens = "pad_list comment L padword"
  have len: "length ?tokens = nat L"
    using assms(1) by (rule length_pad_list)
  have shape: "?tokens = (if int (length (split_space comment)) < L
                     then split_space comment @
                            replicate (nat L - length (split_space comment)) padword
                     else take (nat L) (split_space comment))"
    using assms(1) by (simp add: pad_list_short pad_list_long)
  have again: "split_space (pad comment L padword) = ?tokens" if "1 \<le> L"
  proof -
    from that len have "?tokens \<noteq> []" by auto
    then show ?thesis
      unfolding pad_def using pad_list_no_space [OF assms(2)] by (rule split_join)
  qed
  from len shape again show ?thesis
    unfolding pad_def by blast
qed

theorem pad_exact_length_witness:
  "(0::int) \<le> 4 \<and> CHR '' '' \<notin> set default_padword \<and>
   split_space (pad ''a b'' 4 default_padword) = [''a'', ''b'', default_padword, default_padword]"
proof -
  have a: "(0::int) \<le> 4" by simp
  have b: "CHR '' '' \<notin> set default_padword" by (simp add: default_padword_def)
  have c: "split_space ''a b'' = [''a'', ''b'']" by (simp add: split_space_def)
  from pad_exact_length [OF a b, of "''a b''"] a b c show ?thesis
    by (auto simp: numeral_eq_Suc)
qed

lemma pad_list_empty:
  "1 \<le> L \<Longrightarrow> pad_list [] L padword = [] # replicate (nat L - 1) padword"
  by (auto simp: pad_list_def split_space_def slice_to_def Let_def nat_diff_distrib')

lemma join_space_Cons: "ws \<noteq> [] \<Longrightarrow> join_space (w # ws) = w @ '' '' @ join_space ws"
  by (cases ws) auto

text \<open>
  Padding the empty comment to length 1 returns the empty string, which does not begin
  with a space: the one token of the empty comment already fills the length.
\<close>

theorem pad_empty_comment_counterexample:
  "pad [] 1 default_padword = [] \<and> take 1 (pad [] 1 default_padword) \<noteq> '' ''"
  by (simp add: pad_def pad_list_def split_space_def slice_to_def)

text \<open>
  Claim C9, amended. For every target length \<open>1 \<le> L\<close> and every non-empty pad token without a
  space in it, padding the empty comment does not give \<open>L\<close> pad tokens: the empty string
  splits into one empty token, so the space-split of the result is the empty token followed
  by \<open>L - 1\<close> pad tokens. For \<open>2 \<le> L\<close> the returned string begins with a space; for \<open>L = 1\<close> it
  is the empty string.
\<close>

theorem pad_empty_comment:
  assumes "1 \<le> L" and "CHR '' '' \<notin> set padword" and "padword \<noteq> []"
  shows "split_space (pad [] L padword) = [] # replicate (nat L - 1) padword \<and>
         pad [] L padword \<noteq> join_space (replicate (nat L) padword) \<and>
         (2 \<le> L \<longrightarrow> pad [] L padword = '' '' @ join_space (replicate (nat L - 1) padword)) \<and>
         (L = 1 \<longrightarrow> pad [] L padword = [])"
proof -
  have shape: "pad_list [] L padword = [] # replicate (nat L - 1) padword"
    using assms(1) by (rule pad_list_empty)
  have tokens: "split_space (pad [] L padword) = [] # replicate (nat L - 1) padword"
    unfolding pad_def shape using assms(2) by (intro split_join) auto
  have other: "split_space (join_space (replicate (nat L) padword)) = replicate (nat L) padword"
    using assms(1,2) by (intro split_join) auto
  have differ: "pad [] L padword \<noteq> join_space (replicate (nat L) padword)"
  proof
    assume "pad [] L padword = join_space (replicate (nat L) padword)"
    with tokens other have "[] # replicate (nat L - 1) padword = replicate (nat L) padword"
      by simp
    moreover from assms(1) obtain n where "nat L = Suc n"
      by (cases "nat L") auto
    ultimately show False
      using assms(3) by simp
  qed
  have space: "pad [] L padword = '' '' @ join_space (replicate (nat L - 1) padword)" if "2 \<le> L"
  proof -
    from that have "replicate (nat L - 1) padword \<noteq> []" by auto
    then show ?thesis
      unfolding pad_def shape by (simp add: join_space_Cons)
  qed
  have one: "pad [] L padword = []" if "L = 1"
    unfolding pad_def shape using that by simp
  from tokens differ space one show ?thesis by blast
qed

theorem pad_empty_comment_witness:
  "(1::int) \<le> 3 \<and> CHR '' '' \<notin> set default_padword \<and> default_padword \<noteq> [] \<and>
   split_space (pad [] 3 default_padword) = [[], default_padword, default_padword] \<and>
   pad [] 3 default_padword = '' <pad> <pad>''"
proof -
  have a: "(1::int) \<le> 3" by simp
  have b: "CHR '' '' \<notin> set default_padword" by (simp add: default_padword_def)
  have c: "default_padword \<noteq> []" by (simp add: default_padword_def)
  have d: "join_space (replicate (nat 3 - 1) default_padword) = ''<pad> <pad>''"
    by (simp add: default_padword_def numeral_eq_Suc)
  have e: "replicate (nat 3 - 1) default_padword = [default_padword, default_padword]"
    by (simp add: numeral_eq_Suc)
  note main = pad_empty_comment [OF a b c]
  from main have "split_space (pad [] 3 default_padword) = [[], default_padword, default_padword]"
    unfolding e by blast
  moreover from main have "pad [] 3 default_padword = '' <pad> <pad>''"
    unfolding d by simp
  ultimately show ?thesis using a b c by blast
qed

section \<open>The tokenizer\<close>

lemma lower_char_not_upper: "\<not> is_upper_char (lower_char c)"
  by (auto simp: is_upper_char_def lower_char_def)

lemma lower_char_fixed: "\<not> is_upper_char c \<Longrightarrow> lower_char c = c"
  by (auto simp: is_upper_char_def lower_char_def)

lemma lower_lower: "lower (lower w) = lower w"
  by (simp add: lower_def lower_char_fixed lower_char_not_upper)

lemma lower_no_upper: "c \<in> set (lower w) \<Longrightarrow> \<not> is_upper_char c"
  by (auto simp: lower_def lower_char_not_upper)

lemma lower_char_upper: "is_upper_char c \<Longrightarrow> is_lower_char (lower_char c)"
  by (auto simp: is_upper_char_def is_lower_char_def lower_char_def)

lemma punctuations_no_letter:
  "p \<in> set punctuations \<Longrightarrow> c \<in> set p \<Longrightarrow> \<not> is_lower_char c"
  by (auto simp: punctuations_def string_punctuation_def is_lower_char_def)

lemma lower_eq_no_letter:
  "lower w = p \<Longrightarrow> (\<And>c. c \<in> set p \<Longrightarrow> \<not> is_lower_char c) \<Longrightarrow> w = p"
proof (induction w arbitrary: p)
  case Nil
  then show ?case by (simp add: lower_def)
next
  case (Cons c cs)
  from Cons.prems(1) obtain q qs where p: "p = q # qs" "lower_char c = q" "lower cs = qs"
    by (auto simp: lower_def)
  from Cons.prems(2) p have "\<not> is_lower_char (lower_char c)" by auto
  then have "lower_char c = c"
    using lower_char_upper lower_char_fixed by blast
  moreover have "cs = qs"
    using Cons.IH [OF p(3)] Cons.prems(2) p(1) by auto
  ultimately show ?case using p by simp
qed

lemma lower_punctuation: "lower w \<in> set punctuations \<Longrightarrow> w \<in> set punctuations"
  using lower_eq_no_letter [of w "lower w"] punctuations_no_letter by metis

lemma clean_words_set:
  "set (clean_words True word_list) = lower ` {w \<in> set word_list. w \<notin> set punctuations}"
  by (auto simp: clean_words_def)

text \<open>
  \<^verbatim>\<open>nltk.word_tokenize("Wait...")\<close> is the two tokens \<^verbatim>\<open>Wait\<close> and \<^verbatim>\<open>...\<close>. The second one
  is made of punctuation characters only and is none of the 34 strings of \<open>punctuations\<close>,
  so line 39 keeps it.
\<close>

theorem clean_words_counterexample:
  "clean_words True [''Wait'', ''...''] = [''wait'', ''...''] \<and>
   set ''...'' \<subseteq> set string_punctuation"
  by (simp add: clean_words_def punctuations_def string_punctuation_def lower_def lower_char_def
      char_of_eq_iff)

text \<open>
  Claim C8, amended. For every comment and every tokenizer, tokenizing with lower-casing on
  stores the join of tokens that hold no upper-case letter (each is its own lower-casing)
  and of which none is exactly one standard punctuation character or one of the two quote
  tokens; a token of several punctuation characters, such as \<^verbatim>\<open>...\<close>, is kept. When the
  tokenizer finds no token in the empty string, the result for it is the empty string.
\<close>

theorem tokenize_lower_no_punctuation:
  "tokenize_text word_tokenize True text = join_space (clean_words True (word_tokenize text)) \<and>
   (\<forall>word \<in> set (clean_words True (word_tokenize text)).
      (\<forall>c \<in> set word. \<not> is_upper_char c) \<and> lower word = word \<and> word \<notin> set punctuations) \<and>
   (word_tokenize [] = [] \<longrightarrow> tokenize_text word_tokenize True [] = [])"
proof -
  have "(\<forall>c \<in> set word. \<not> is_upper_char c) \<and> lower word = word \<and> word \<notin> set punctuations"
    if "word \<in> set (clean_words True (word_tokenize text))" for word
  proof -
    from that obtain w where w: "word = lower w" "w \<notin> set punctuations"
      unfolding clean_words_set by blast
    then show ?thesis
      using lower_no_upper lower_lower lower_punctuation by metis
  qed
  moreover have "tokenize_text word_tokenize True [] = []" if "word_tokenize [] = []"
    using that by (simp add: tokenize_text_def clean_words_def)
  ultimately show ?thesis
    by (simp add: tokenize_text_def)
qed

theorem tokenize_lower_no_punctuation_witness:
  "tokenize_text (\<lambda>text. filter (\<lambda>w. w \<noteq> []) (split_space text)) True ''Hello !'' = ''hello'' \<and>
   lower ''hello'' = ''hello'' \<and> ''hello'' \<notin> set punctuations \<and>
   tokenize_text (\<lambda>text. filter (\<lambda>w. w \<noteq> []) (split_space text)) True [] = []"
proof -
  let ?tok = "\<lambda>text. filter (\<lambda>w. w \<noteq> []) (split_space text)"
  have a: "?tok [] = []" by (simp add: split_space_def)
  have b: "clean_words True (?tok ''Hello !'') = [''hello'']"
    by (simp add: split_space_def clean_words_def punctuations_def string_punctuation_def
        lower_def lower_char_def char_of_eq_iff)
  note main = tokenize_lower_no_punctuation [of ?tok "''Hello !''"]
  from main b have "tokenize_text ?tok True ''Hello !'' = ''hello''" by simp
  moreover from main b have "lower ''hello'' = ''hello'' \<and> ''hello'' \<notin> set punctuations" by simp
  moreover from main a have "tokenize_text ?tok True [] = []" by blast
  ultimately show ?thesis by blast
qed

section \<open>Dictionaries as association lists\<close>

lemma map_of_dict_set: "map_of (dict_set k v d) = (map_of d)(k \<mapsto> v)"
  by (induction d) (auto simp: fun_eq_iff)

lemma keys_dict_set:
  "map fst (dict_set k v d) = (if k \<in> set (map fst d) then map fst d else map fst d @ [k])"
proof (induction d)
  case Nil
  then show ?case by simp
next
  case (Cons p d)
  then show ?case by (cases p) (simp split: if_splits)
qed

lemma distinct_dict_set: "distinct (map fst d) \<Longrightarrow> distinct (map fst (dict_set k v d))"
  by (simp add: keys_dict_set)

lemma dict_get_dict_set: "dict_get (dict_set k v d) = (dict_get d)(k \<mapsto> v)"
  by (simp add: dict_get_def map_of_dict_set fun_eq_iff)

section \<open>The word frequency counter\<close>

text \<open>
  The test of line 121 holds whatever the table and the pad token are: a dictionary is never
  equal to a string.
\<close>

lemma pad_check_never_excludes: "py_ne (PyDict word_count) (PyStr padword)"
  by (simp add: py_ne_def)

lemma dict_get_increment:
  "dict_get (increment word d) =
     (dict_get d)(word \<mapsto> (case dict_get d word of None \<Rightarrow> 1 | Some n \<Rightarrow> n + 1))"
  by (auto simp: increment_def defaultdict_get_def dict_get_dict_set fun_eq_iff
      split: option.splits)

lemma distinct_increment: "distinct (map fst d) \<Longrightarrow> distinct (map fst (increment word d))"
  by (auto simp: increment_def defaultdict_get_def distinct_dict_set split: option.splits)

lemma increment_first: "dict_get d word = None \<Longrightarrow> dict_get (increment word d) word = Some 1"
  by (simp add: dict_get_increment)

lemma count_words_counts:
  assumes "distinct (map fst d)"
    and "\<And>word. dict_get d word =
           (if word \<in> set seen then Some (int (count_list seen word)) else None)"
  shows "distinct (map fst (count_words padword ws d)) \<and>
         (\<forall>word. dict_get (count_words padword ws d) word =
            (if word \<in> set (seen @ ws) then Some (int (count_list (seen @ ws) word)) else None))"
  using assms
proof (induction ws arbitrary: d seen)
  case Nil
  then show ?case by simp
next
  case (Cons x xs)
  let ?d = "increment x d"
  have d: "distinct (map fst ?d)"
    using Cons.prems(1) by (rule distinct_increment)
  have c: "dict_get ?d word =
      (if word \<in> set (seen @ [x]) then Some (int (count_list (seen @ [x]) word)) else None)"
    for word
    by (simp add: dict_get_increment Cons.prems(2))
  from Cons.IH [of ?d "seen @ [x]", OF d c] show ?case
    by (simp add: pad_check_never_excludes)
qed

lemma count_words_append:
  "count_words padword (xs @ ys) d = count_words padword ys (count_words padword xs d)"
  by (induction xs arbitrary: d) auto

lemma count_rows_append:
  "count_rows padword (xs @ ys) d =
     (case count_rows padword xs d of Inl e \<Rightarrow> Inl e | Inr d' \<Rightarrow> count_rows padword ys d')"
  by (induction xs arbitrary: d) (auto split: sum.splits)

lemma count_chunks_rows: "count_chunks padword chunks d = count_rows padword (concat chunks) d"
  by (induction chunks arbitrary: d) (auto simp: count_rows_append split: sum.splits)

text \<open>
  A file whose \<^verbatim>\<open>comment_text\<close> cells all arrive as strings is counted word by word; a cell
  that arrives as \<^verbatim>\<open>NaN\<close> ends the call with \<^verbatim>\<open>AttributeError\<close>.
\<close>

lemma py_split_parse_row:
  "\<not> is_na (comment_text entry) \<Longrightarrow>
   py_split (fst (parse_row entry)) = Inr (split_space (comment_text entry))"
  by (simp add: py_split_def parse_row_def read_cell_def)

lemma py_split_parse_row_na:
  "is_na (comment_text entry) \<Longrightarrow> py_split (fst (parse_row entry)) = Inl AttributeError"
  by (simp add: py_split_def parse_row_def read_cell_def)

lemma count_rows_words:
  "\<forall>entry \<in> set rows. \<not> is_na (comment_text entry) \<Longrightarrow>
   count_rows padword (map parse_row rows) d =
     Inr (count_words padword (concat (map (\<lambda>entry. split_space (comment_text entry)) rows)) d)"
  by (induction rows arbitrary: d) (auto simp: count_words_append py_split_parse_row)

lemma count_rows_na:
  "entry \<in> set rows \<Longrightarrow> is_na (comment_text entry) \<Longrightarrow>
   count_rows padword (map parse_row rows) d = Inl AttributeError"
proof (induction rows arbitrary: d)
  case Nil
  then show ?case by simp
next
  case (Cons r rows)
  show ?case
  proof (cases "is_na (comment_text r)")
    case True
    then show ?thesis by (simp add: py_split_parse_row_na)
  next
    case False
    with Cons.prems have "entry \<in> set rows" by auto
    with Cons.IH Cons.prems(2) False show ?thesis
      by (simp add: py_split_parse_row)
  qed
qed

lemma concat_chunks_of: "0 < n \<Longrightarrow> concat (chunks_of n xs) = xs"
proof (induction n xs rule: chunks_of.induct)
  case (1 n xs)
  then show ?case
    by (subst chunks_of.simps) auto
qed

lemma count_occurrences_result:
  "files w file_name = Some rows \<Longrightarrow> 1 \<le> chunk_size \<Longrightarrow>
   \<forall>entry \<in> set rows. \<not> is_na (comment_text entry) \<Longrightarrow>
   count_occurrences w file_name chunk_size padword =
     Inr (count_words padword (concat (map (\<lambda>entry. split_space (comment_text entry)) rows)) [])"
  by (simp add: count_occurrences_def read_csv_def count_chunks_rows count_rows_words
      concat_chunks_of)

lemma count_occurrences_na:
  "files w file_name = Some rows \<Longrightarrow> 1 \<le> chunk_size \<Longrightarrow>
   entry \<in> set rows \<Longrightarrow> is_na (comment_text entry) \<Longrightarrow>
   count_occurrences w file_name chunk_size padword = Inl AttributeError"
  by (simp add: count_occurrences_def read_csv_def count_chunks_rows count_rows_na
      concat_chunks_of)

lemma count_words_table:
  "distinct (map fst (count_words padword ws [])) \<and>
   (\<forall>word. dict_get (count_words padword ws []) word =
      (if word \<in> set ws then Some (int (count_list ws word)) else None))"
  using count_words_counts [of "[]" "[]" padword ws] by (simp add: dict_get_def)



section \<open>The vocabulary builder: the vocabulary\<close>

text \<open>
  A word that has no entry above the threshold keeps what the vocabulary held for it before
  the loop; the entry at position \<open>i\<close>, when above the threshold, gets the counter of
  \<^verbatim>\<open>enumerate\<close> at that entry.
\<close>

lemma vocab_loop_other:
  "(\<And>n. (word, n) \<in> set items \<Longrightarrow> \<not> threshold < n) \<Longrightarrow>
   dict_get (fst (vocab_loop threshold uncommon_limit index items st)) word =
     dict_get (fst st) word"
proof (induction items arbitrary: index st)
  case Nil
  then show ?case by (cases st) simp
next
  case (Cons item items)
  obtain w n where item: "item = (w, n)" by (cases item)
  obtain vocab uncommon where st: "st = (vocab, uncommon)" by (cases st)
  have rest: "\<And>n. (word, n) \<in> set items \<Longrightarrow> \<not> threshold < n"
    using Cons.prems by simp
  have here: "w \<noteq> word" if "threshold < n"
    using Cons.prems item that by auto
  show ?case
    unfolding item st using here by (auto simp: Cons.IH [OF rest] dict_get_dict_set)
qed

lemma vocab_loop_index:
  "distinct (map fst items) \<Longrightarrow> i < length items \<Longrightarrow> threshold < snd (items ! i) \<Longrightarrow>
   dict_get (fst (vocab_loop threshold uncommon_limit index items st))
     (fst (items ! i)) = Some (int (index + i))"
proof (induction items arbitrary: index st i)
  case Nil
  then show ?case by simp
next
  case (Cons item items)
  obtain w n where item: "item = (w, n)" by (cases item)
  obtain vocab uncommon where st: "st = (vocab, uncommon)" by (cases st)
  show ?case
  proof (cases i)
    case 0
    have absent: "\<And>m. (w, m) \<in> set items \<Longrightarrow> \<not> threshold < m"
      using Cons.prems(1) item by (force simp: image_iff)
    from 0 Cons.prems(3) item have "threshold < n" by simp
    then show ?thesis
      unfolding item 0 st by (simp add: vocab_loop_other [OF absent] dict_get_dict_set)
  next
    case (Suc j)
    have "dict_get (fst (vocab_loop threshold uncommon_limit (Suc index) items st'))
            (fst (items ! j)) = Some (int (Suc index + j))" for st'
      using Cons.IH [of j "Suc index" st'] Cons.prems Suc by simp
    then show ?thesis
      unfolding item Suc st by simp
  qed
qed

lemma dict_get_initial_vocab:
  "dict_get (initial_vocab unknown padword) = [unknown \<mapsto> - 2, padword \<mapsto> - 1]"
  by (auto simp: initial_vocab_def dict_get_def fun_eq_iff)

lemma build_vocab_result:
  assumes "build_vocab processes w word_count threshold padword unknown modify
             file_dir file_name new_dir chunk_size uncommon_limit = (Inr (vocab, reverse_vocab), w')"
  shows "vocab = fst (vocab_loop threshold uncommon_limit 0 word_count
                        (initial_vocab unknown padword, []))"
    and "reverse_vocab = reverse_loop vocab []"
  using assms
  by (auto simp: build_vocab_def Let_def split: prod.splits if_splits option.splits)

lemma build_vocab_no_modify:
  "build_vocab processes w word_count threshold padword unknown False
     file_dir file_name new_dir chunk_size uncommon_limit =
   (Inr (fst (vocab_loop threshold uncommon_limit 0 word_count (initial_vocab unknown padword, [])),
         reverse_loop (fst (vocab_loop threshold uncommon_limit 0 word_count
                              (initial_vocab unknown padword, []))) []), w)"
  by (simp add: build_vocab_def Let_def split: prod.splits)

text \<open>
  A table that counts the pad token above the threshold: line 158 stores the pad token's
  position in the table over the reserved \<open>-1\<close>.
\<close>

theorem reserved_indices_counterexample:
  "fst (build_vocab 1 \<lparr>dirs = {}, files = (\<lambda>path. None :: unit entry list option)\<rparr>
          [(''<pad>'', 5)] 3 ''<pad>'' ''<unk>'' False None None None 20000 500) =
     Inr ([(''<unk>'', - 2), (''<pad>'', 0)], [(- 2, ''<unk>''), (0, ''<pad>'')])"
  by (simp add: build_vocab_def initial_vocab_def)

text \<open>
  Claim C3, amended. Whenever \<open>build_vocab\<close> returns, the unknown token and the pad token
  are different strings, and neither has an entry of the Word Count Table whose count
  strictly exceeds the threshold, the Vocabulary maps the unknown token to \<open>-2\<close> and the pad
  token to \<open>-1\<close>, whatever else the table holds and whatever \<open>uncommon_limit\<close> is.
\<close>

theorem reserved_indices:
  assumes "build_vocab processes w word_count threshold padword unknown modify
             file_dir file_name new_dir chunk_size uncommon_limit = (Inr (vocab, reverse_vocab), w')"
    and "unknown \<noteq> padword"
    and "\<And>n. (unknown, n) \<in> set word_count \<Longrightarrow> \<not> threshold < n"
    and "\<And>n. (padword, n) \<in> set word_count \<Longrightarrow> \<not> threshold < n"
  shows "dict_get vocab unknown = Some (- 2) \<and> dict_get vocab padword = Some (- 1)"
proof -
  note vocab = build_vocab_result(1) [OF assms(1)]
  have "dict_get vocab unknown = dict_get (initial_vocab unknown padword) unknown"
    unfolding vocab using vocab_loop_other [OF assms(3)] by simp
  moreover have "dict_get vocab padword = dict_get (initial_vocab unknown padword) padword"
    unfolding vocab using vocab_loop_other [OF assms(4)] by simp
  ultimately show ?thesis
    using assms(2) by (simp add: dict_get_initial_vocab)
qed

theorem reserved_indices_witness:
  "build_vocab 1 \<lparr>dirs = {}, files = (\<lambda>path. None :: unit entry list option)\<rparr>
     [(''<pad>'', 1), (''b'', 5)] 3 ''<pad>'' ''<unk>'' False None None None 20000 500 =
     (Inr ([(''<unk>'', - 2), (''<pad>'', - 1), (''b'', 1)],
           [(- 2, ''<unk>''), (- 1, ''<pad>''), (1, ''b'')]),
      \<lparr>dirs = {}, files = (\<lambda>path. None)\<rparr>) \<and>
   dict_get [(''<unk>'', - 2 :: int), (''<pad>'', - 1), (''b'', 1)] ''<unk>'' = Some (- 2) \<and>
   dict_get [(''<unk>'', - 2 :: int), (''<pad>'', - 1), (''b'', 1)] ''<pad>'' = Some (- 1)"
proof -
  let ?w = "\<lparr>dirs = {}, files = (\<lambda>path. None :: unit entry list option)\<rparr>"
  have a: "build_vocab 1 ?w [(''<pad>'', 1), (''b'', 5)] 3 ''<pad>'' ''<unk>'' False
             None None None 20000 500 =
           (Inr ([(''<unk>'', - 2), (''<pad>'', - 1), (''b'', 1)],
                 [(- 2, ''<unk>''), (- 1, ''<pad>''), (1, ''b'')]), ?w)"
    by (simp add: build_vocab_def initial_vocab_def)
  have b: "''<unk>'' \<noteq> ''<pad>''" by simp
  have c: "\<And>n. (''<unk>'', n) \<in> set [(''<pad>'', 1), (''b'', 5)] \<Longrightarrow> \<not> (3::int) < n" by simp
  have d: "\<And>n. (''<pad>'', n) \<in> set [(''<pad>'', 1), (''b'', 5)] \<Longrightarrow> \<not> (3::int) < n" by simp
  from reserved_indices [OF a b c d] a show ?thesis
    by blast
qed

text \<open>
  A table whose first word is at the threshold or below: the second word gets index 1, and
  no word gets index 0.
\<close>

theorem real_word_indices_counterexample:
  "fst (build_vocab 1 \<lparr>dirs = {}, files = (\<lambda>path. None :: unit entry list option)\<rparr>
          [(''a'', 1), (''b'', 5)] 3 ''<pad>'' ''<unk>'' False None None None 20000 500) =
     Inr ([(''<unk>'', - 2), (''<pad>'', - 1), (''b'', 1)],
          [(- 2, ''<unk>''), (- 1, ''<pad>''), (1, ''b'')])"
  by (simp add: build_vocab_def initial_vocab_def)

text \<open>
  Claim C4, amended. Whenever \<open>build_vocab\<close> returns for a Word Count Table (a dictionary:
  one entry per word), every word whose count strictly exceeds the threshold is in the
  Vocabulary with its position in the enumeration of the whole table as index, words at
  or below the threshold counted too: the indices are not negative, different for different
  words and in enumeration order, with a gap at every word at or below the threshold.
  No other word has an index that is not negative.
\<close>

theorem real_word_indices:
  assumes "build_vocab processes w word_count threshold padword unknown modify
             file_dir file_name new_dir chunk_size uncommon_limit = (Inr (vocab, reverse_vocab), w')"
    and "distinct (map fst word_count)"
  shows "(\<forall>i < length word_count. threshold < snd (word_count ! i) \<longrightarrow>
            dict_get vocab (fst (word_count ! i)) = Some (int i)) \<and>
         (\<forall>word ident. dict_get vocab word = Some ident \<longrightarrow> 0 \<le> ident \<longrightarrow>
            (\<exists>i < length word_count. ident = int i \<and> fst (word_count ! i) = word \<and>
               threshold < snd (word_count ! i)))"
proof -
  note vocab = build_vocab_result(1) [OF assms(1)]
  have above: "dict_get vocab (fst (word_count ! i)) = Some (int i)"
    if "i < length word_count" "threshold < snd (word_count ! i)" for i
    unfolding vocab using vocab_loop_index [OF assms(2) that] by simp
  have real: "\<exists>i < length word_count. ident = int i \<and> fst (word_count ! i) = word \<and>
                threshold < snd (word_count ! i)"
    if found: "dict_get vocab word = Some ident" and nonneg: "0 \<le> ident" for word ident
  proof (cases "\<exists>n. (word, n) \<in> set word_count \<and> threshold < n")
    case True
    then obtain n where n: "(word, n) \<in> set word_count" "threshold < n" by blast
    then obtain i where i: "i < length word_count" "word_count ! i = (word, n)"
      by (auto simp: in_set_conv_nth)
    with n above [of i] found show ?thesis by auto
  next
    case False
    then have "\<And>n. (word, n) \<in> set word_count \<Longrightarrow> \<not> threshold < n" by blast
    then have "dict_get vocab word = dict_get (initial_vocab unknown padword) word"
      unfolding vocab using vocab_loop_other by simp
    with found nonneg show ?thesis
      by (auto simp: dict_get_initial_vocab split: if_splits)
  qed
  from above real show ?thesis by blast
qed

theorem real_word_indices_witness:
  "build_vocab 1 \<lparr>dirs = {}, files = (\<lambda>path. None :: unit entry list option)\<rparr>
     [(''a'', 1), (''b'', 5)] 3 ''<pad>'' ''<unk>'' False None None None 20000 500 =
     (Inr ([(''<unk>'', - 2), (''<pad>'', - 1), (''b'', 1)],
           [(- 2, ''<unk>''), (- 1, ''<pad>''), (1, ''b'')]),
      \<lparr>dirs = {}, files = (\<lambda>path. None)\<rparr>) \<and>
   distinct (map fst [(''a'', 1 :: int), (''b'', 5)]) \<and>
   dict_get [(''<unk>'', - 2 :: int), (''<pad>'', - 1), (''b'', 1)] ''b'' = Some 1"
proof -
  let ?w = "\<lparr>dirs = {}, files = (\<lambda>path. None :: unit entry list option)\<rparr>"
  let ?wc = "[(''a'', 1), (''b'', 5)] :: (string \<times> int) list"
  have a: "build_vocab 1 ?w ?wc 3 ''<pad>'' ''<unk>'' False None None None 20000 500 =
           (Inr ([(''<unk>'', - 2), (''<pad>'', - 1), (''b'', 1)],
                 [(- 2, ''<unk>''), (- 1, ''<pad>''), (1, ''b'')]), ?w)"
    by (simp add: build_vocab_def initial_vocab_def)
  have b: "distinct (map fst ?wc)" by simp
  have c: "1 < length ?wc \<and> (3::int) < snd (?wc ! 1)" by simp
  from real_word_indices [OF a b] c
  have "dict_get [(''<unk>'', - 2 :: int), (''<pad>'', - 1), (''b'', 1)] (fst (?wc ! 1)) =
          Some (int 1)"
    by blast
  then have "dict_get [(''<unk>'', - 2 :: int), (''<pad>'', - 1), (''b'', 1)] ''b'' = Some 1"
    by simp
  with a b show ?thesis by blast
qed

section \<open>The empty comment and the empty word\<close>

lemma empty_is_na: "is_na []"
  by (simp add: is_na_def na_values_def)

lemma empty_token_word:
  "entry \<in> set rows \<Longrightarrow> [] \<in> set (split_space (comment_text entry)) \<Longrightarrow>
   [] \<in> set (concat (map (\<lambda>entry. split_space (comment_text entry)) rows))"
  by auto

text \<open>
  A corpus with a row whose \<^verbatim>\<open>comment_text\<close> cell is empty: \<^verbatim>\<open>pd.read_csv\<close> delivers the
  cell as \<^verbatim>\<open>NaN\<close>, and the \<^verbatim>\<open>split\<close> of line 119 raises \<^verbatim>\<open>AttributeError\<close>. No table is
  returned, so the empty word is not counted.
\<close>

theorem empty_comment_counterexample:
  "count_occurrences
     \<lparr>dirs = {}, files = [''train.csv'' \<mapsto>
        [\<lparr>comment_text = ''a'', other_columns = ()\<rparr>,
         \<lparr>comment_text = [], other_columns = ()\<rparr>]]\<rparr>
     ''train.csv'' 20000 ''<pad>'' = Inl AttributeError"
  by (simp add: count_occurrences_def read_csv_def parse_row_def read_cell_def is_na_def
      na_values_def py_split_def split_space_def py_ne_def increment_def
      defaultdict_get_def dict_get_def chunks_of.simps)

text \<open>
  Claim C10, amended. For every corpus file that is there and every row of it: when the
  \<^verbatim>\<open>comment_text\<close> of the row is the empty string, the cell is read as missing and
  \<open>count_occurrences\<close> raises \<^verbatim>\<open>AttributeError\<close> instead of counting an empty word. When
  every \<^verbatim>\<open>comment_text\<close> of the corpus is read as a string and the row's \<^verbatim>\<open>comment_text\<close>
  gives an empty token when split on single spaces (it begins or ends with a space, or has
  two spaces in a row), \<open>count_occurrences\<close> returns a table that holds the empty string
  as a word, with a count \<open>n\<close> of at least 1; and when \<open>n\<close> strictly exceeds the threshold,
  \<open>build_vocab\<close> on that table gives the empty string its position in the table as index,
  as it does for any other word.
\<close>

theorem empty_token_counted:
  assumes "files w file_name = Some rows" and "1 \<le> chunk_size" and "entry \<in> set rows"
  shows "(comment_text entry = [] \<longrightarrow>
            count_occurrences w file_name chunk_size padword = Inl AttributeError) \<and>
         ((\<forall>r \<in> set rows. \<not> is_na (comment_text r)) \<and>
          [] \<in> set (split_space (comment_text entry)) \<longrightarrow>
            (\<exists>word_count n. count_occurrences w file_name chunk_size padword = Inr word_count \<and>
               dict_get word_count [] = Some n \<and> 1 \<le> n \<and>
               (threshold < n \<longrightarrow>
                  (\<exists>i < length word_count. word_count ! i = ([], n) \<and>
                     (\<exists>vocab reverse_vocab.
                        build_vocab processes w' word_count threshold padword' unknown False
                          file_dir file_name' new_dir chunk_size' uncommon_limit =
                          (Inr (vocab, reverse_vocab), w') \<and>
                        dict_get vocab [] = Some (int i))))))"
proof -
  let ?ws = "concat (map (\<lambda>entry. split_space (comment_text entry)) rows)"
  let ?wc = "count_words padword ?ws []"
  let ?n = "int (count_list ?ws [])"
  have raises: "count_occurrences w file_name chunk_size padword = Inl AttributeError"
    if "comment_text entry = []"
    using assms that by (intro count_occurrences_na [of w file_name rows chunk_size entry])
      (simp_all add: empty_is_na)
  have counted: "\<exists>word_count n. count_occurrences w file_name chunk_size padword = Inr word_count \<and>
               dict_get word_count [] = Some n \<and> 1 \<le> n \<and>
               (threshold < n \<longrightarrow>
                  (\<exists>i < length word_count. word_count ! i = ([], n) \<and>
                     (\<exists>vocab reverse_vocab.
                        build_vocab processes w' word_count threshold padword' unknown False
                          file_dir file_name' new_dir chunk_size' uncommon_limit =
                          (Inr (vocab, reverse_vocab), w') \<and>
                        dict_get vocab [] = Some (int i))))"
    if strings: "\<forall>r \<in> set rows. \<not> is_na (comment_text r)"
      and token: "[] \<in> set (split_space (comment_text entry))"
  proof -
    have res: "count_occurrences w file_name chunk_size padword = Inr ?wc"
      using assms(1,2) strings by (rule count_occurrences_result)
    have mem: "[] \<in> set ?ws"
      using assms(3) token by (rule empty_token_word)
    have dist: "distinct (map fst ?wc)"
      using count_words_table by blast
    have look: "dict_get ?wc [] = Some ?n"
      using count_words_table [of padword ?ws] mem by simp
    have pos: "1 \<le> ?n"
      using mem count_list_0_iff [of ?ws "[]"] by (cases "count_list ?ws []") auto
    have real: "\<exists>i < length ?wc. ?wc ! i = ([], ?n) \<and>
                   (\<exists>vocab reverse_vocab.
                      build_vocab processes w' ?wc threshold padword' unknown False
                        file_dir file_name' new_dir chunk_size' uncommon_limit =
                        (Inr (vocab, reverse_vocab), w') \<and>
                      dict_get vocab [] = Some (int i))" if above: "threshold < ?n"
    proof -
      from look have "([], ?n) \<in> set ?wc"
        unfolding dict_get_def by (rule map_of_SomeD)
      then obtain i where i: "i < length ?wc" "?wc ! i = ([], ?n)"
        by (auto simp: in_set_conv_nth)
      have "dict_get (fst (vocab_loop threshold uncommon_limit 0 ?wc
                             (initial_vocab unknown padword', []))) (fst (?wc ! i)) =
              Some (int (0 + i))"
        using dist i(1) above by (intro vocab_loop_index) (simp_all add: i(2))
      then show ?thesis
        using i by (auto simp: build_vocab_no_modify)
    qed
    from res look pos real show ?thesis by blast
  qed
  from raises counted show ?thesis by blast
qed

theorem empty_token_counted_witness:
  "count_occurrences
     \<lparr>dirs = {}, files = [''train.csv'' \<mapsto>
        [\<lparr>comment_text = ''a  b'', other_columns = ()\<rparr>]]\<rparr>
     ''train.csv'' 20000 ''<pad>'' = Inr [(''a'', 1), ([], 1), (''b'', 1)] \<and>
   build_vocab 1 \<lparr>dirs = {}, files = (\<lambda>path. None :: unit entry list option)\<rparr>
     [(''a'', 1), ([], 1), (''b'', 1)] 0 ''<pad>'' ''<unk>'' False None None None 20000 500 =
     (Inr ([(''<unk>'', - 2), (''<pad>'', - 1), (''a'', 0), ([], 1), (''b'', 2)],
           [(- 2, ''<unk>''), (- 1, ''<pad>''), (0, ''a''), (1, []), (2, ''b'')]),
      \<lparr>dirs = {}, files = (\<lambda>path. None)\<rparr>) \<and>
   count_occurrences
     \<lparr>dirs = {}, files = [''train.csv'' \<mapsto>
        [\<lparr>comment_text = [], other_columns = ()\<rparr>]]\<rparr>
     ''train.csv'' 20000 ''<pad>'' = Inl AttributeError"
proof -
  let ?row = "\<lparr>comment_text = ''a  b'', other_columns = ()\<rparr>"
  let ?w = "\<lparr>dirs = {}, files = [''train.csv'' \<mapsto> [?row]]\<rparr>"
  let ?empty = "\<lparr>comment_text = [], other_columns = ()\<rparr>"
  let ?v = "\<lparr>dirs = {}, files = [''train.csv'' \<mapsto> [?empty]]\<rparr>"
  let ?w' = "\<lparr>dirs = {}, files = (\<lambda>path. None :: unit entry list option)\<rparr>"
  have a: "files ?w ''train.csv'' = Some [?row]" by simp
  have a': "files ?v ''train.csv'' = Some [?empty]" by simp
  have b: "(1::nat) \<le> 20000" by simp
  have c: "?row \<in> set [?row]" by simp
  have c': "?empty \<in> set [?empty]" by simp
  have d: "(\<forall>r \<in> set [?row]. \<not> is_na (comment_text r)) \<and>
           [] \<in> set (split_space (comment_text ?row))"
    by (simp add: is_na_def na_values_def split_space_def)
  have d': "comment_text ?empty = []" by simp
  from empty_token_counted [OF a b c, of "''<pad>''" 0 1 ?w' "''<pad>''" "''<unk>''"
      None None None 20000 500] d
  obtain word_count n where
    wc: "count_occurrences ?w ''train.csv'' 20000 ''<pad>'' = Inr word_count"
    and n: "dict_get word_count [] = Some n" "1 \<le> n"
    by blast
  from empty_token_counted [OF a' b c', of "''<pad>''"] d'
  have r: "count_occurrences ?v ''train.csv'' 20000 ''<pad>'' = Inl AttributeError"
    by blast
  have e: "count_occurrences ?w ''train.csv'' 20000 ''<pad>'' = Inr [(''a'', 1), ([], 1), (''b'', 1)]"
    by (simp add: count_occurrences_def read_csv_def parse_row_def read_cell_def is_na_def
        na_values_def py_split_def split_space_def py_ne_def increment_def
        defaultdict_get_def dict_get_def chunks_of.simps)
  have f: "build_vocab 1 ?w' [(''a'', 1), ([], 1), (''b'', 1)] 0 ''<pad>'' ''<unk>'' False
             None None None 20000 500 =
           (Inr ([(''<unk>'', - 2), (''<pad>'', - 1), (''a'', 0), ([], 1), (''b'', 2)],
                 [(- 2, ''<unk>''), (- 1, ''<pad>''), (0, ''a''), (1, []), (2, ''b'')]), ?w')"
    by (simp add: build_vocab_def initial_vocab_def)
  from wc e f r show ?thesis by simp
qed

section \<open>The vocabulary builder: the check of the paths\<close>

text \<open>
  With both paths missing the call is refused with \<^verbatim>\<open>ValueError\<close> and the file system is as
  it was. With one of them missing the test of line 166 lets the call through, and it ends
  in the \<^verbatim>\<open>TypeError\<close> of a path operation on \<^verbatim>\<open>None\<close>.
\<close>

lemma config_error_both_missing:
  "\<not> truthy file_dir \<Longrightarrow> \<not> truthy file_name \<Longrightarrow>
   build_vocab processes w word_count threshold padword unknown True
     file_dir file_name new_dir chunk_size uncommon_limit = (Inl ValueError, w)"
  by (simp add: build_vocab_def Let_def split: prod.splits)

lemma path_join_not_Nil: "a \<noteq> [] \<Longrightarrow> path_join a b \<noteq> []"
  by (auto simp: path_join_def)

lemma build_vocab_modify:
  assumes "truthy file_dir \<or> truthy file_name"
  shows "build_vocab processes w word_count threshold padword unknown True
           file_dir file_name new_dir chunk_size uncommon_limit =
         (let st = vocab_loop threshold uncommon_limit 0 word_count
                     (initial_vocab unknown padword, []);
              r = rewrite_corpus processes w (snd st) unknown file_dir file_name new_dir chunk_size
          in (case fst r of
                Some e \<Rightarrow> Inl e
              | None \<Rightarrow> Inr (fst st, reverse_loop (fst st) []), snd r))"
  using assms by (auto simp: build_vocab_def Let_def split: prod.splits option.splits)

lemma missing_file_name_type_error:
  assumes "truthy file_dir"
  shows "fst (build_vocab processes w word_count threshold padword unknown True
                file_dir None new_dir chunk_size uncommon_limit) = Inl TypeError"
proof -
  from assms obtain d where d: "file_dir = Some d" "d \<noteq> []"
    by (auto simp: truthy_def split: option.splits)
  have "fst (rewrite_corpus processes w uncommon unknown (Some d) None new_dir chunk_size) =
          Some TypeError" for uncommon
    using d(2)
    by (auto simp: rewrite_corpus_def os_path_join_def os_makedirs_def path_join_not_Nil
        split: option.splits)
  then show ?thesis
    unfolding d(1) using assms d(1) by (simp add: build_vocab_modify Let_def)
qed

lemma missing_file_dir_type_error:
  assumes "truthy file_name"
  shows "build_vocab processes w word_count threshold padword unknown True
           None file_name new_dir chunk_size uncommon_limit = (Inl TypeError, w)"
proof -
  have "rewrite_corpus processes w uncommon unknown None file_name new_dir chunk_size =
          (Some TypeError, w)" for uncommon
    by (auto simp: rewrite_corpus_def os_path_join_def split: option.splits)
  then show ?thesis
    using assms by (simp add: build_vocab_modify Let_def)
qed

text \<open>
  Claim C5, at a call the claim is about: \<^verbatim>\<open>modify=True\<close>, \<^verbatim>\<open>file_dir='data'\<close>, no
  \<^verbatim>\<open>file_name\<close>, and no directory \<^verbatim>\<open>data\<close> yet. The claim asks for \<^verbatim>\<open>ValueError\<close> and an
  untouched file system; \<open>build_vocab\<close> creates the directory and then raises \<^verbatim>\<open>TypeError\<close>.
\<close>

theorem missing_file_name_not_refused:
  "build_vocab 1 \<lparr>dirs = {}, files = (\<lambda>path. None :: unit entry list option)\<rparr>
     [] 3 ''<pad>'' ''<unk>'' True (Some ''data'') None None 20000 500 =
     (Inl TypeError, \<lparr>dirs = {''data''}, files = (\<lambda>path. None)\<rparr>)"
  by (simp add: build_vocab_def initial_vocab_def truthy_def rewrite_corpus_def
      os_path_join_def os_path_exists_def os_makedirs_def)

section \<open>The vocabulary builder: the rewrite of the corpus\<close>

text \<open>
  The splits of a chunk are the row ranges \<open>[i * step, (i + 1) * step)\<close> for
  \<open>i < processes\<close>, so put together they are the first \<open>processes * step\<close> rows of the chunk,
  in their order. With \<open>step = chunk_size div processes\<close> that is every row of the chunk
  when \<open>processes\<close> divides \<open>chunk_size\<close>; otherwise a chunk of \<open>chunk_size\<close> rows loses its
  last \<open>chunk_size mod processes\<close> rows.
\<close>

lemma take_append_slice: "a \<le> b \<Longrightarrow> take a xs @ iloc xs a b = take b xs"
proof -
  assume "a \<le> b"
  then have "take a xs = take a (take b xs)" by (simp add: min_def)
  then show ?thesis
    unfolding iloc_def by (metis append_take_drop_id)
qed

lemma concat_splits:
  "concat (map (\<lambda>i. iloc xs (i * step) (step * (i + 1))) [0..<p]) = take (p * step) xs"
proof (induction p)
  case 0
  then show ?case by simp
next
  case (Suc p)
  have "take (p * step) xs @ iloc xs (p * step) (step * (p + 1)) = take (step * (p + 1)) xs"
    by (rule take_append_slice) (simp add: algebra_simps)
  with Suc show ?case by (simp add: algebra_simps)
qed

lemma find_replace_append:
  "find_replace (xs @ ys) uncommon unknown =
     (case find_replace xs uncommon unknown of
        Inl e \<Rightarrow> Inl e
      | Inr xs' \<Rightarrow>
          (case find_replace ys uncommon unknown of
             Inl e \<Rightarrow> Inl e
           | Inr ys' \<Rightarrow> Inr (xs' @ ys')))"
  by (induction xs) (auto split: sum.splits)

lemma starmap_find_replace:
  "(case starmap (map (\<lambda>df. find_replace df uncommon unknown) dfs) of
      Inl e \<Rightarrow> Inl e
    | Inr results \<Rightarrow> Inr (concat results)) =
   find_replace (concat dfs) uncommon unknown"
  by (induction dfs) (auto simp: find_replace_append split: sum.splits)

lemma rewrite_chunk_rows:
  "rewrite_chunk processes chunk_size uncommon unknown chunk =
     find_replace (take (processes * (chunk_size div processes)) chunk) uncommon unknown"
  by (simp only: rewrite_chunk_def Let_def starmap_find_replace concat_splits)

lemma rewrite_chunk_exact:
  assumes "processes dvd chunk_size" and "1 \<le> processes" and "length chunk \<le> chunk_size"
  shows "rewrite_chunk processes chunk_size uncommon unknown chunk =
           find_replace chunk uncommon unknown"
  using assms by (simp add: rewrite_chunk_rows)

lemma rewrite_chunk_one_worker:
  "length chunk \<le> chunk_size \<Longrightarrow>
   rewrite_chunk 1 chunk_size uncommon unknown chunk = find_replace chunk uncommon unknown"
  by (simp add: rewrite_chunk_rows)

text \<open>Rows whose cells are all read as strings: no worker raises.\<close>

lemma find_replace_parsed:
  "\<forall>r \<in> set rows. \<not> is_na (comment_text r) \<Longrightarrow>
   \<exists>df. find_replace (map parse_row rows) uncommon unknown = Inr df \<and>
        map write_row df = map (replaced_row uncommon unknown) rows"
proof (induction rows)
  case Nil
  then show ?case by simp
next
  case (Cons r rows)
  then obtain df where df: "find_replace (map parse_row rows) uncommon unknown = Inr df"
      "map write_row df = map (replaced_row uncommon unknown) rows"
    by auto
  from Cons.prems have "\<not> is_na (comment_text r)" by simp
  then have "find_replace_row uncommon unknown (parse_row r) =
      Inr (Str (join_space (substitute uncommon unknown (split_space (comment_text r)))),
           other_columns r)"
    by (simp add: find_replace_row_def py_split_def parse_row_def read_cell_def)
  moreover have "write_row
      (Str (join_space (substitute uncommon unknown (split_space (comment_text r)))),
       other_columns r) = replaced_row uncommon unknown r"
    by (simp add: write_row_def cell_text_def replaced_row_def)
  ultimately show ?case
    using df by simp
qed

lemma rewrite_chunk_parsed:
  assumes "\<forall>r \<in> set rows. \<not> is_na (comment_text r)"
  shows "\<exists>df. rewrite_chunk processes chunk_size uncommon unknown (map parse_row rows) = Inr df \<and>
              map write_row df =
                map (replaced_row uncommon unknown)
                  (take (processes * (chunk_size div processes)) rows)"
proof -
  have "\<forall>r \<in> set (take (processes * (chunk_size div processes)) rows).
          \<not> is_na (comment_text r)"
    using assms by (auto dest: in_set_takeD)
  from find_replace_parsed [OF this] show ?thesis
    by (simp add: rewrite_chunk_rows take_map)
qed

lemma rewrite_chunk_drops:
  assumes "1 \<le> processes" and "\<forall>r \<in> set rows. \<not> is_na (comment_text r)"
  shows "\<exists>df. rewrite_chunk processes chunk_size uncommon unknown (map parse_row rows) = Inr df \<and>
              length df = min (length rows) (chunk_size - chunk_size mod processes)"
proof -
  have eq: "processes * (chunk_size div processes) = chunk_size - chunk_size mod processes"
    by (simp add: minus_mod_eq_mult_div)
  from rewrite_chunk_parsed [OF assms(2), of processes chunk_size uncommon unknown]
  obtain df where df: "rewrite_chunk processes chunk_size uncommon unknown (map parse_row rows) =
        Inr df"
      "map write_row df = map (replaced_row uncommon unknown)
          (take (processes * (chunk_size div processes)) rows)"
    by blast
  from df(2) have "length (map write_row df) =
      length (map (replaced_row uncommon unknown)
                (take (processes * (chunk_size div processes)) rows))"
    by simp
  with df(1) show ?thesis
    by (simp add: eq min.commute)
qed

lemma rewrite_chunks_files:
  assumes "1 \<le> processes" and "\<forall>c \<in> set chunks. \<forall>r \<in> set c. \<not> is_na (comment_text r)"
  shows "fst (rewrite_chunks processes chunk_size uncommon unknown out index
                (map (map parse_row) chunks) w) = None \<and>
         dirs (snd (rewrite_chunks processes chunk_size uncommon unknown out index
                      (map (map parse_row) chunks) w)) = dirs w \<and>
         files (snd (rewrite_chunks processes chunk_size uncommon unknown out index
                       (map (map parse_row) chunks) w)) =
           (if chunks = [] then files w
            else (files w)(out \<mapsto>
                   (if index = 0 then []
                    else (case files w out of None \<Rightarrow> [] | Some old \<Rightarrow> old)) @
                   concat (map (\<lambda>c. map (replaced_row uncommon unknown)
                                       (take (processes * (chunk_size div processes)) c))
                             chunks)))"
  using assms(2)
proof (induction chunks arbitrary: index w)
  case Nil
  then show ?case by simp
next
  case (Cons chunk chunks)
  from Cons.prems have here: "\<forall>r \<in> set chunk. \<not> is_na (comment_text r)"
    and rest: "\<forall>c \<in> set chunks. \<forall>r \<in> set c. \<not> is_na (comment_text r)"
    by simp_all
  from rewrite_chunk_parsed [OF here, of processes chunk_size uncommon unknown]
  obtain df where df: "rewrite_chunk processes chunk_size uncommon unknown (map parse_row chunk) =
        Inr df"
      "map write_row df = map (replaced_row uncommon unknown)
          (take (processes * (chunk_size div processes)) chunk)"
    by blast
  let ?w1 = "to_csv w out (if index = 0 then Write else Append) df"
  have step: "rewrite_chunks processes chunk_size uncommon unknown out index
                (map (map parse_row) (chunk # chunks)) w =
              rewrite_chunks processes chunk_size uncommon unknown out (Suc index)
                (map (map parse_row) chunks) ?w1"
    using assms(1) df(1) by simp
  have w1: "dirs ?w1 = dirs w"
    "files ?w1 = (files w)(out \<mapsto>
        (if index = 0 then [] else (case files w out of None \<Rightarrow> [] | Some old \<Rightarrow> old)) @
        map (replaced_row uncommon unknown)
          (take (processes * (chunk_size div processes)) chunk))"
    by (auto simp: to_csv_def df(2) split: option.splits)
  show ?case
    unfolding step using Cons.IH [OF rest, of "Suc index" ?w1]
    by (auto simp: w1 fun_eq_iff)
qed

lemma length_chunks_of: "c \<in> set (chunks_of n xs) \<Longrightarrow> length c \<le> n"
proof (induction n xs rule: chunks_of.induct)
  case (1 n xs)
  from "1.prems" have "\<not> (n = 0 \<or> xs = [])"
    by (subst (asm) chunks_of.simps) (auto split: if_splits)
  with 1 show ?case
    by (subst (asm) (2) chunks_of.simps) (auto split: if_splits)
qed

lemma set_chunks_of: "c \<in> set (chunks_of n xs) \<Longrightarrow> set c \<subseteq> set xs"
proof (induction n xs rule: chunks_of.induct)
  case (1 n xs)
  from "1.prems" have "\<not> (n = 0 \<or> xs = [])"
    by (subst (asm) chunks_of.simps) (auto split: if_splits)
  with 1 show ?case
    by (subst (asm) (2) chunks_of.simps)
      (auto split: if_splits dest: in_set_takeD in_set_dropD)
qed

lemma chunks_of_map: "chunks_of n (map f xs) = map (map f) (chunks_of n xs)"
proof (induction n xs rule: chunks_of.induct)
  case (1 n xs)
  show ?case
  proof (cases "n = 0 \<or> xs = []")
    case True
    then show ?thesis
      by (subst chunks_of.simps, subst (2) chunks_of.simps) auto
  next
    case False
    with 1 show ?thesis
      by (subst chunks_of.simps, subst (2) chunks_of.simps) (simp add: take_map drop_map)
  qed
qed

lemma chunks_of_Nil: "0 < n \<Longrightarrow> chunks_of n xs = [] \<longleftrightarrow> xs = []"
  by (subst chunks_of.simps) auto

lemma rewrite_all_chunks_exact:
  assumes "processes dvd chunk_size" and "1 \<le> processes" and "1 \<le> chunk_size"
  shows "concat (map (\<lambda>c. map g (take (processes * (chunk_size div processes)) c))
                  (chunks_of chunk_size rows)) = map g rows"
proof -
  have same: "map (\<lambda>c. map g (take (processes * (chunk_size div processes)) c))
                (chunks_of chunk_size rows) = map (map g) (chunks_of chunk_size rows)"
    using assms(1,2) by (intro map_cong refl) (simp add: length_chunks_of)
  have pos: "0 < chunk_size"
    using assms(3) by simp
  have "concat (map (map g) (chunks_of chunk_size rows)) = map g (concat (chunks_of chunk_size rows))"
    by (simp add: map_concat)
  then show ?thesis
    by (simp only: same concat_chunks_of [OF pos])
qed

lemma rewrite_corpus_files:
  assumes "files w (path_join d f) = Some rows" and "rows \<noteq> []"
    and "\<forall>r \<in> set rows. \<not> is_na (comment_text r)"
    and "d \<noteq> []" and "f \<noteq> []" and "nd \<noteq> []"
    and "1 \<le> processes" and "1 \<le> chunk_size"
  shows "fst (rewrite_corpus processes w uncommon unknown (Some d) (Some f) (Some nd) chunk_size) =
           None \<and>
         files (snd (rewrite_corpus processes w uncommon unknown (Some d) (Some f) (Some nd)
                       chunk_size)) (path_join (path_join d nd) f) =
           Some (concat (map (\<lambda>c. map (replaced_row uncommon unknown)
                                     (take (processes * (chunk_size div processes)) c))
                           (chunks_of chunk_size rows)))"
proof -
  let ?out = "path_join (path_join d nd) f"
  let ?w1 = "if os_path_exists w (path_join d nd) then w
             else w\<lparr>dirs := insert (path_join d nd) (dirs w)\<rparr>"
  have chunks: "chunks_of chunk_size rows \<noteq> []"
    using assms(2,8) by (simp add: chunks_of_Nil)
  have strings: "\<forall>c \<in> set (chunks_of chunk_size rows). \<forall>r \<in> set c. \<not> is_na (comment_text r)"
    using assms(3) set_chunks_of by blast
  have "rewrite_corpus processes w uncommon unknown (Some d) (Some f) (Some nd) chunk_size =
        rewrite_chunks processes chunk_size uncommon unknown ?out 0
          (map (map parse_row) (chunks_of chunk_size rows)) ?w1"
    using assms(1,4,6,8)
    by (simp add: rewrite_corpus_def truthy_def os_path_join_def os_makedirs_def
        path_join_not_Nil read_csv_def chunks_of_map)
  then show ?thesis
    using rewrite_chunks_files [OF assms(7) strings, of chunk_size uncommon unknown ?out 0 ?w1]
      chunks
    by simp
qed

lemma rewrite_exact_when_divisible:
  assumes "files w (path_join d f) = Some rows" and "rows \<noteq> []"
    and "\<forall>r \<in> set rows. \<not> is_na (comment_text r)"
    and "d \<noteq> []" and "f \<noteq> []" and "nd \<noteq> []"
    and "processes dvd chunk_size" and "1 \<le> processes" and "1 \<le> chunk_size"
  shows "files (snd (build_vocab processes w word_count threshold padword unknown True
                       (Some d) (Some f) (Some nd) chunk_size uncommon_limit))
           (path_join (path_join d nd) f) =
         Some (map (replaced_row
                      (snd (vocab_loop threshold uncommon_limit 0 word_count
                              (initial_vocab unknown padword, []))) unknown) rows)"
proof -
  have t: "truthy (Some d) \<or> truthy (Some f)"
    using assms(4) by (simp add: truthy_def)
  show ?thesis
    using rewrite_corpus_files [OF assms(1-6) assms(8,9)]
    by (simp add: build_vocab_modify [OF t] Let_def
        rewrite_all_chunks_exact [OF assms(7-9)] split: option.splits)
qed

text \<open>
  Claim C1, at a corpus of three rows read in one chunk of size 3 on a machine where
  \<^verbatim>\<open>cpu_count()\<close> is 2: \<^verbatim>\<open>step\<close> is 1, the two splits are the first and the second row, and
  the file written holds two rows. The third row of the input is lost, where the claim
  asks for the input rows in the same count.
\<close>

theorem rewrite_drops_rows:
  "files (snd (build_vocab 2
       \<lparr>dirs = {''data''}, files = [''data/train.csv'' \<mapsto>
          [\<lparr>comment_text = ''a b'', other_columns = ()\<rparr>,
           \<lparr>comment_text = ''b c'', other_columns = ()\<rparr>,
           \<lparr>comment_text = ''c a'', other_columns = ()\<rparr>]]\<rparr>
       [(''a'', 1), (''b'', 5), (''c'', 5)] 3 ''<pad>'' ''<unk>'' True
       (Some ''data'') (Some ''train.csv'') (Some ''out'') 3 500)) ''data/out/train.csv'' =
     Some [\<lparr>comment_text = ''<unk> b'', other_columns = ()\<rparr>,
           \<lparr>comment_text = ''b c'', other_columns = ()\<rparr>]"
  by (simp add: build_vocab_def initial_vocab_def truthy_def rewrite_corpus_def
      os_path_join_def path_join_def os_path_exists_def os_makedirs_def read_csv_def
      chunks_of.simps rewrite_chunk_def iloc_def find_replace_row_def substitute_def
      parse_row_def read_cell_def is_na_def na_values_def py_split_def write_row_def
      cell_text_def split_space_def to_csv_def upt_rec)

text \<open>
  Claim C2, at the same corpus and chunk size: with one worker the file written holds the
  three rewritten rows, with two workers it holds two, where the claim asks for the same
  output.
\<close>

theorem one_worker_differs_from_two:
  "files (snd (build_vocab 1
       \<lparr>dirs = {''data''}, files = [''data/train.csv'' \<mapsto>
          [\<lparr>comment_text = ''a b'', other_columns = ()\<rparr>,
           \<lparr>comment_text = ''b c'', other_columns = ()\<rparr>,
           \<lparr>comment_text = ''c a'', other_columns = ()\<rparr>]]\<rparr>
       [(''a'', 1), (''b'', 5), (''c'', 5)] 3 ''<pad>'' ''<unk>'' True
       (Some ''data'') (Some ''train.csv'') (Some ''out'') 3 500)) ''data/out/train.csv'' =
     Some [\<lparr>comment_text = ''<unk> b'', other_columns = ()\<rparr>,
           \<lparr>comment_text = ''b c'', other_columns = ()\<rparr>,
           \<lparr>comment_text = ''c <unk>'', other_columns = ()\<rparr>] \<and>
   files (snd (build_vocab 2
       \<lparr>dirs = {''data''}, files = [''data/train.csv'' \<mapsto>
          [\<lparr>comment_text = ''a b'', other_columns = ()\<rparr>,
           \<lparr>comment_text = ''b c'', other_columns = ()\<rparr>,
           \<lparr>comment_text = ''c a'', other_columns = ()\<rparr>]]\<rparr>
       [(''a'', 1), (''b'', 5), (''c'', 5)] 3 ''<pad>'' ''<unk>'' True
       (Some ''data'') (Some ''train.csv'') (Some ''out'') 3 500)) ''data/out/train.csv'' \<noteq>
   files (snd (build_vocab 1
       \<lparr>dirs = {''data''}, files = [''data/train.csv'' \<mapsto>
          [\<lparr>comment_text = ''a b'', other_columns = ()\<rparr>,
           \<lparr>comment_text = ''b c'', other_columns = ()\<rparr>,
           \<lparr>comment_text = ''c a'', other_columns = ()\<rparr>]]\<rparr>
       [(''a'', 1), (''b'', 5), (''c'', 5)] 3 ''<pad>'' ''<unk>'' True
       (Some ''data'') (Some ''train.csv'') (Some ''out'') 3 500)) ''data/out/train.csv''"
  by (simp add: build_vocab_def initial_vocab_def truthy_def rewrite_corpus_def
      os_path_join_def path_join_def os_path_exists_def os_makedirs_def read_csv_def
      chunks_of.simps rewrite_chunk_def iloc_def find_replace_row_def substitute_def
      parse_row_def read_cell_def is_na_def na_values_def py_split_def write_row_def
      cell_text_def split_space_def to_csv_def upt_rec)

end
